theory Spec2Isabelle
  imports Main "HOL-Library.Sublist"
begin

section \<open>JavaScript values\<close>

text \<open>
  The matcher inspects a message of TypeScript type \<open>any\<close>. The values it can meet in a
  JSON-like message are modelled as a tree: \<open>undefined\<close>, \<open>null\<close>, booleans, numbers,
  strings, arrays and plain objects. An object is the list of its own properties in
  enumeration order (in a well-formed object no key occurs twice). Numbers are the
  integers: the matcher only compares numbers, tests them for zero and prints them,
  and no property below depends on a fraction, \<open>NaN\<close> or an infinity. Strings are
  \<open>char\<close> lists. Function values occur only as the matcher's expected value (see
  \<open>expected\<close> below), not inside a message.
\<close>

datatype jsval =
    JUndefined
  | JNull
  | JBool bool
  | JNum int
  | JStr (str: string)
  | JArr "jsval list"
  | JObj "(string \<times> jsval) list"

text \<open>The only exception the matcher can raise by itself: reading a property of
  \<open>null\<close> or \<open>undefined\<close>. The payload is the property that was read.\<close>

datatype exn = TypeError string

text \<open>\<open>propertyValue?: any\<close>: a literal (\<open>Literal JUndefined\<close> when the argument is left
  out) or a predicate function. A predicate is a total function to \<open>bool\<close>, which is
  the declared result type of \<open>valueMatches\<close>, where its result is returned.\<close>

datatype expected = Literal (lit: jsval) | Predicate (pred: "jsval \<Rightarrow> bool")

record ValidationResult =
  success :: bool
  error :: "string option"

record UpdateComponentsSchemaMatcher =
  componentType :: string
  propertyName :: "string option"
  propertyValue :: expected
  caseInsensitive :: bool

text \<open>The constructor: \<open>propertyName\<close> and \<open>propertyValue\<close> are optional,
  \<open>caseInsensitive\<close> defaults to \<open>false\<close>.\<close>

definition new_UpdateComponentsSchemaMatcher ::
  "string \<Rightarrow> string option \<Rightarrow> expected \<Rightarrow> bool option \<Rightarrow> UpdateComponentsSchemaMatcher" where
  "new_UpdateComponentsSchemaMatcher ct pn pv ci =
     \<lparr>componentType = ct, propertyName = pn, propertyValue = pv,
      caseInsensitive = (case ci of None \<Rightarrow> False | Some b \<Rightarrow> b)\<rparr>"

subsection \<open>Primitive operations of the language\<close>

text \<open>\<open>v.k\<close> on a value that is neither \<open>null\<close> nor \<open>undefined\<close>: the own property of an
  object, \<open>undefined\<close> when there is none. On a boolean, a number, a string or an array
  the names the matcher reads (\<open>props\<close>, \<open>component\<close>, \<open>id\<close>, \<open>child\<close>, \<open>text\<close>,
  \<open>path\<close>, \<open>label\<close>, \<open>value\<close>, \<open>updateComponents\<close>, \<open>components\<close>) are \<open>undefined\<close>.
  The one read under a name that is not fixed, \<open>properties[this.propertyName]\<close>, is
  made on the \<open>props\<close> of a selected component, which is an object. Members inherited
  from \<open>Object.prototype\<close> are outside the model.\<close>

fun own_prop :: "jsval \<Rightarrow> string \<Rightarrow> jsval" where
  "own_prop (JObj kvs) k = (case map_of kvs k of None \<Rightarrow> JUndefined | Some v \<Rightarrow> v)"
| "own_prop _ k = JUndefined"

text \<open>\<open>v.k\<close> in general: a \<open>TypeError\<close> on \<open>null\<close> and \<open>undefined\<close>.\<close>

fun get_prop :: "jsval \<Rightarrow> string \<Rightarrow> exn + jsval" where
  "get_prop JUndefined k = Inl (TypeError k)"
| "get_prop JNull k = Inl (TypeError k)"
| "get_prop v k = Inr (own_prop v k)"

text \<open>ToBoolean.\<close>

fun truthy :: "jsval \<Rightarrow> bool" where
  "truthy JUndefined = False"
| "truthy JNull = False"
| "truthy (JBool b) = b"
| "truthy (JNum n) = (n \<noteq> 0)"
| "truthy (JStr s) = (s \<noteq> [])"
| "truthy (JArr xs) = True"
| "truthy (JObj kvs) = True"

text \<open>\<open>a === b\<close>. Primitives compare by value. Objects and arrays compare by
  reference; two occurrences in a tree are two objects, so they are never equal.\<close>

fun strict_eq :: "jsval \<Rightarrow> jsval \<Rightarrow> bool" where
  "strict_eq JUndefined JUndefined = True"
| "strict_eq JNull JNull = True"
| "strict_eq (JBool a) (JBool b) = (a = b)"
| "strict_eq (JNum a) (JNum b) = (a = b)"
| "strict_eq (JStr a) (JStr b) = (a = b)"
| "strict_eq _ _ = False"

text \<open>\<open>typeof v\<close>; \<open>null\<close>, arrays and objects are all \<open>"object"\<close>.\<close>

fun typeof :: "jsval \<Rightarrow> string" where
  "typeof JUndefined = ''undefined''"
| "typeof JNull = ''object''"
| "typeof (JBool b) = ''boolean''"
| "typeof (JNum n) = ''number''"
| "typeof (JStr s) = ''string''"
| "typeof (JArr xs) = ''object''"
| "typeof (JObj kvs) = ''object''"

fun typeof_expected :: "expected \<Rightarrow> string" where
  "typeof_expected (Literal v) = typeof v"
| "typeof_expected (Predicate f) = ''function''"

fun isArray :: "jsval \<Rightarrow> bool" where
  "isArray (JArr xs) = True"
| "isArray _ = False"

text \<open>The elements a \<open>for ... of\<close> loop over an array visits.\<close>

fun elems :: "jsval \<Rightarrow> jsval list" where
  "elems (JArr xs) = xs"
| "elems _ = []"

text \<open>\<open>String.prototype.toLowerCase\<close>. On a string of ASCII characters it maps the
  letters \<open>A\<close> to \<open>Z\<close> to \<open>a\<close> to \<open>z\<close> and leaves the rest. On any other string its
  result is given by the Unicode tables of the language, which are not part of this
  repository: it is the parameter \<open>lower\<close>, and every function below that reaches
  \<open>toLowerCase\<close> takes it.\<close>

definition is_ascii :: "char \<Rightarrow> bool" where
  "is_ascii c = ((of_char c :: nat) < 128)"

definition lower_char :: "char \<Rightarrow> char" where
  "lower_char c =
     (let n = (of_char c :: nat)
      in if 65 \<le> n \<and> n \<le> 90 then char_of (n + 32) else c)"

definition toLowerCase :: "(string \<Rightarrow> string) \<Rightarrow> string \<Rightarrow> string" where
  "toLowerCase lower s = (if list_all is_ascii s then map lower_char s else lower s)"

subsection \<open>JSON.stringify\<close>

definition hex_digit :: "nat \<Rightarrow> char" where
  "hex_digit d = (if d < 10 then char_of (48 + d) else char_of (87 + d))"

text \<open>QuoteJSONString, one character at a time.\<close>

definition quote_char :: "char \<Rightarrow> string" where
  "quote_char c =
     (if c = CHR 0x08 then [CHR 0x5C, CHR ''b'']
      else if c = CHR 0x09 then [CHR 0x5C, CHR ''t'']
      else if c = CHR 0x0A then [CHR 0x5C, CHR ''n'']
      else if c = CHR 0x0C then [CHR 0x5C, CHR ''f'']
      else if c = CHR 0x0D then [CHR 0x5C, CHR ''r'']
      else if c = CHR 0x22 then [CHR 0x5C, CHR 0x22]
      else if c = CHR 0x5C then [CHR 0x5C, CHR 0x5C]
      else if (of_char c :: nat) < 32
        then [CHR 0x5C, CHR ''u'', CHR ''0'', CHR ''0'',
              hex_digit ((of_char c :: nat) div 16), hex_digit ((of_char c :: nat) mod 16)]
      else [c])"

definition quote :: "string \<Rightarrow> string" where
  "quote s = [CHR 0x22] @ concat (map quote_char s) @ [CHR 0x22]"

fun digits :: "nat \<Rightarrow> string" where
  "digits n = (if n < 10 then [char_of (48 + n)] else digits (n div 10) @ [char_of (48 + n mod 10)])"

declare digits.simps [simp del]

definition number_string :: "int \<Rightarrow> string" where
  "number_string i = (if i < 0 then CHR ''-'' # digits (nat (- i)) else digits (nat i))"

fun join :: "string \<Rightarrow> string list \<Rightarrow> string" where
  "join sep [] = []"
| "join sep [x] = x"
| "join sep (x # y # ys) = x @ sep @ join sep (y # ys)"

text \<open>\<open>JSON.stringify(v)\<close>: \<open>None\<close> is the result \<open>undefined\<close>. Inside an array
  \<open>undefined\<close> prints as \<open>null\<close>; inside an object the property is left out.\<close>

fun stringify :: "jsval \<Rightarrow> string option"
and stringify_elems :: "jsval list \<Rightarrow> string list"
and stringify_members :: "(string \<times> jsval) list \<Rightarrow> string list" where
  "stringify JUndefined = None"
| "stringify JNull = Some ''null''"
| "stringify (JBool b) = Some (if b then ''true'' else ''false'')"
| "stringify (JNum n) = Some (number_string n)"
| "stringify (JStr s) = Some (quote s)"
| "stringify (JArr xs) = Some (''['' @ join '','' (stringify_elems xs) @ '']'')"
| "stringify (JObj kvs) = Some (''{'' @ join '','' (stringify_members kvs) @ ''}'')"
| "stringify_elems [] = []"
| "stringify_elems (x # xs) =
     (case stringify x of None \<Rightarrow> ''null'' | Some s \<Rightarrow> s) # stringify_elems xs"
| "stringify_members [] = []"
| "stringify_members ((k, v) # kvs) =
     (case stringify v of None \<Rightarrow> stringify_members kvs
      | Some s \<Rightarrow> (quote k @ '':'' @ s) # stringify_members kvs)"

text \<open>\<open>JSON.stringify\<close> of the expected value; of a function it is \<open>undefined\<close>.\<close>

fun stringify_expected :: "expected \<Rightarrow> string option" where
  "stringify_expected (Literal v) = stringify v"
| "stringify_expected (Predicate f) = None"

text \<open>A template literal prints \<open>undefined\<close> as the word.\<close>

fun template :: "string option \<Rightarrow> string" where
  "template None = ''undefined''"
| "template (Some s) = s"

section \<open>The matcher\<close>

text \<open>The local function \<open>compareStrings\<close> of \<open>valueMatches\<close>.\<close>

definition compareStrings ::
  "(string \<Rightarrow> string) \<Rightarrow> UpdateComponentsSchemaMatcher \<Rightarrow> string \<Rightarrow> string \<Rightarrow> bool" where
  "compareStrings lower this s1 s2 =
     (if caseInsensitive this then toLowerCase lower s1 = toLowerCase lower s2 else s1 = s2)"

text \<open>\<open>valueMatches\<close>, with the \<open>for ... of\<close> loop over an array as
  \<open>valueMatches_items\<close>: \<open>True\<close> is the loop's \<open>return true\<close>, \<open>False\<close> is falling out
  of the loop.\<close>

function valueMatches ::
  "(string \<Rightarrow> string) \<Rightarrow> UpdateComponentsSchemaMatcher \<Rightarrow> jsval \<Rightarrow> expected \<Rightarrow> bool"
and valueMatches_items ::
  "(string \<Rightarrow> string) \<Rightarrow> UpdateComponentsSchemaMatcher \<Rightarrow> jsval list \<Rightarrow> expected \<Rightarrow> bool" where
  "valueMatches lower this actualValue expectedValue =
     (if actualValue = JNull \<or> actualValue = JUndefined then False
      else if typeof_expected expectedValue = ''function'' then pred expectedValue actualValue
      else if typeof actualValue = ''string'' \<and> typeof_expected expectedValue = ''string''
        then compareStrings lower this (str actualValue) (str (lit expectedValue))
      else if typeof actualValue = ''number'' \<and> typeof_expected expectedValue = ''number''
        then strict_eq actualValue (lit expectedValue)
      else if typeof actualValue = ''boolean'' \<and> typeof_expected expectedValue = ''boolean''
        then strict_eq actualValue (lit expectedValue)
      else if typeof actualValue = ''object'' \<and> \<not> isArray actualValue
              \<and> truthy (own_prop actualValue ''path'')
        then False
      else if isArray actualValue \<and> valueMatches_items lower this (elems actualValue) expectedValue
        then True
      else stringify actualValue = stringify_expected expectedValue)"
| "valueMatches_items lower this [] expectedValue = False"
| "valueMatches_items lower this (item # items) expectedValue =
     (if valueMatches lower this item expectedValue then True
      else if typeof item = ''object'' \<and> item \<noteq> JNull
              \<and> truthy (own_prop item ''label'')
              \<and> valueMatches lower this (own_prop item ''label'') expectedValue then True
      else if typeof item = ''object'' \<and> item \<noteq> JNull
              \<and> truthy (own_prop item ''value'')
              \<and> valueMatches lower this (own_prop item ''value'') expectedValue then True
      else valueMatches_items lower this items expectedValue)"
  by pat_completeness auto
termination
proof -
  have "map_of kvs k = Some x \<Longrightarrow> size x \<le> size_list (size_prod (\<lambda>_. 0) size) kvs"
    for kvs :: "(string \<times> jsval) list" and k x
    by (induction kvs) (auto split: if_splits)
  then have "size (own_prop v k) \<le> size v" for v k
    by (cases v) (auto split: option.splits intro: le_SucI)
  then have member: "2 * size (own_prop v k) < Suc (2 * size v + n)" for v k n
    using le_imp_less_Suc [OF mult_le_mono2 [of "size (own_prop v k)" "size v" 2]]
    by (simp add: trans_less_add1)
  have "size_list size (elems v) \<le> size v" for v
    by (cases v) auto
  then have element: "2 * size_list size (elems v) < Suc (2 * size v)" for v
    using le_imp_less_Suc [OF mult_le_mono2 [of "size_list size (elems v)" "size v" 2]]
    by simp
  show ?thesis
    by (relation "measure (\<lambda>x. case x of Inl (l, t, a, e) \<Rightarrow> 2 * size a + 1
                                         | Inr (l, t, xs, e) \<Rightarrow> 2 * size_list size xs)")
       (simp_all add: member element)
qed

declare valueMatches.simps [simp del]

text \<open>\<open>components.find((c) => c.id === id)\<close>: the first component with that identifier,
  \<open>undefined\<close> when there is none.\<close>

fun getComponentById :: "jsval list \<Rightarrow> jsval \<Rightarrow> exn + jsval" where
  "getComponentById [] id' = Inr JUndefined"
| "getComponentById (c # cs) id' =
     (case get_prop c ''id'' of
        Inl e \<Rightarrow> Inl e
      | Inr v \<Rightarrow> if strict_eq v id' then Inr c else getComponentById cs id')"

text \<open>The callback of the filter: \<open>c.props && c.props.component === this.componentType\<close>,
  as the truth value the filter takes from it.\<close>

definition isMatching :: "UpdateComponentsSchemaMatcher \<Rightarrow> jsval \<Rightarrow> exn + bool" where
  "isMatching this c =
     (case get_prop c ''props'' of
        Inl e \<Rightarrow> Inl e
      | Inr props \<Rightarrow>
          if \<not> truthy props then Inr False
          else (case get_prop props ''component'' of
                  Inl e \<Rightarrow> Inl e
                | Inr t \<Rightarrow> Inr (strict_eq t (JStr (componentType this)))))"

text \<open>\<open>components.filter(...)\<close>: the callback runs on every element in order, and the
  first exception ends the call.\<close>

fun matchingComponents :: "UpdateComponentsSchemaMatcher \<Rightarrow> jsval list \<Rightarrow> exn + jsval list" where
  "matchingComponents this [] = Inr []"
| "matchingComponents this (c # cs) =
     (case isMatching this c of
        Inl e \<Rightarrow> Inl e
      | Inr b \<Rightarrow>
          (case matchingComponents this cs of
             Inl e \<Rightarrow> Inl e
           | Inr ms \<Rightarrow> Inr (if b then c # ms else ms)))"

text \<open>\<open>this.propertyValue === undefined\<close>.\<close>

fun is_undefined :: "expected \<Rightarrow> bool" where
  "is_undefined (Literal v) = (v = JUndefined)"
| "is_undefined (Predicate f) = False"

text \<open>The body of the loop over the matching components, for one component, with
  \<open>name\<close> the configured property name: \<open>True\<close> is \<open>return { success: true }\<close>,
  \<open>False\<close> goes on to the next component.\<close>

definition checkComponent ::
  "(string \<Rightarrow> string) \<Rightarrow> UpdateComponentsSchemaMatcher \<Rightarrow> jsval list \<Rightarrow> string \<Rightarrow> jsval \<Rightarrow> exn + bool" where
  "checkComponent lower this components name component =
     (case get_prop component ''props'' of
        Inl e \<Rightarrow> Inl e
      | Inr properties \<Rightarrow>
          if \<not> truthy properties then Inr False
          else if own_prop properties name \<noteq> JUndefined
                  \<and> (is_undefined (propertyValue this)
                       \<or> valueMatches lower this (own_prop properties name) (propertyValue this))
            then Inr True
          else if componentType this = ''Button'' \<and> name = ''label''
                  \<and> truthy (own_prop properties ''child'')
            then (case getComponentById components (own_prop properties ''child'') of
                    Inl e \<Rightarrow> Inl e
                  | Inr childComponent \<Rightarrow>
                      if truthy childComponent
                         \<and> truthy (own_prop childComponent ''props'')
                         \<and> strict_eq (own_prop (own_prop childComponent ''props'') ''component'')
                              (JStr ''Text'')
                      then Inr (valueMatches lower this
                                  (own_prop (own_prop childComponent ''props'') ''text'')
                                  (propertyValue this))
                      else Inr False)
          else Inr False)"

fun checkComponents ::
  "(string \<Rightarrow> string) \<Rightarrow> UpdateComponentsSchemaMatcher \<Rightarrow> jsval list \<Rightarrow> string \<Rightarrow> jsval list \<Rightarrow> exn + bool" where
  "checkComponents lower this components name [] = Inr False"
| "checkComponents lower this components name (component # rest) =
     (case checkComponent lower this components name component of
        Inl e \<Rightarrow> Inl e
      | Inr found \<Rightarrow>
          if found then Inr True else checkComponents lower this components name rest)"

subsection \<open>The results of \<open>validate\<close>\<close>

definition ok :: ValidationResult where
  "ok = \<lparr>success = True, error = None\<rparr>"

definition failure :: "string \<Rightarrow> ValidationResult" where
  "failure msg = \<lparr>success = False, error = Some msg\<rparr>"

text \<open>The text \<open>'s'\<close> of a template literal.\<close>

definition single_quoted :: "string \<Rightarrow> string" where
  "single_quoted s = CHR 0x27 # s @ [CHR 0x27]"

definition no_message :: string where
  "no_message = ''Expected a 'updateComponents' message but found none.''"

definition no_array :: string where
  "no_array = single_quoted ''updateComponents''
     @ '' message does not contain a 'components' array.''"

definition no_component :: "UpdateComponentsSchemaMatcher \<Rightarrow> string" where
  "no_component this =
     ''Failed to find component of type '' @ single_quoted (componentType this) @ ''.''"

definition no_value :: "UpdateComponentsSchemaMatcher \<Rightarrow> string \<Rightarrow> string" where
  "no_value this name =
     ''Failed to find component of type '' @ single_quoted (componentType this)
       @ '' with property '' @ single_quoted name
       @ '' containing value '' @ template (stringify_expected (propertyValue this)) @ ''.''"

definition no_property :: "UpdateComponentsSchemaMatcher \<Rightarrow> string \<Rightarrow> string" where
  "no_property this name =
     ''Failed to find component of type '' @ single_quoted (componentType this)
       @ '' with property '' @ single_quoted name @ ''.''"

subsection \<open>\<open>validate\<close>\<close>

definition validate ::
  "(string \<Rightarrow> string) \<Rightarrow> UpdateComponentsSchemaMatcher \<Rightarrow> jsval \<Rightarrow> exn + ValidationResult" where
  "validate lower this schema =
     (case get_prop schema ''updateComponents'' of
        Inl e \<Rightarrow> Inl e
      | Inr updateComponents \<Rightarrow>
          if \<not> truthy updateComponents then Inr (failure no_message)
          else if \<not> isArray (own_prop updateComponents ''components'')
            then Inr (failure no_array)
          else
            (let components = elems (own_prop updateComponents ''components'') in
             case matchingComponents this components of
               Inl e \<Rightarrow> Inl e
             | Inr matching \<Rightarrow>
                 if length matching = 0 then Inr (failure (no_component this))
                 else
                   (case propertyName this of
                      None \<Rightarrow> Inr ok
                    | Some name \<Rightarrow>
                        if name = [] then Inr ok
                        else
                          (case checkComponents lower this components name matching of
                             Inl e \<Rightarrow> Inl e
                           | Inr found \<Rightarrow>
                               if found then Inr ok
                               else if \<not> is_undefined (propertyValue this)
                                 then Inr (failure (no_value this name))
                               else Inr (failure (no_property this name))))))"

section \<open>The call with its state made explicit\<close>

text \<open>
  The state a call \<open>matcher.validate(message)\<close> can reach: the four fields of the
  matcher object \<open>this\<close>, and the message. The field \<open>propertyValue\<close> holds a literal or
  a reference to a function object; the code of the function objects is the table
  \<open>call\<close>, which gives for function \<open>k\<close>, called on a value in a state, its result and
  the state it leaves. A function may change every part of the state: it is handed a
  reference into the message, and it can hold the matcher and the message themselves.

  Every function below takes the state and returns it with its result; a field of
  \<open>this\<close> is read from the state at the place where the source reads it, and the state
  a call returns is the one the next statement runs in. The source has no assignment
  to a field of \<open>this\<close> or to a part of the message, and \<open>filter\<close> and \<open>find\<close> build
  their results without touching the array: the call of the predicate is the only
  step that can change the state.

  Values are trees. What \<open>validate\<close> has read from the message before a call of the
  predicate is, below, the value at the time of the read, where the source holds a
  reference into the message; the two agree as long as no call has changed the
  message.
\<close>

datatype stored = StoredLiteral jsval | StoredFunction nat

record program_state =
  this_componentType :: string
  this_propertyName :: "string option"
  this_propertyValue :: stored
  this_caseInsensitive :: bool
  message :: jsval

type_synonym function_table = "nat \<Rightarrow> jsval \<Rightarrow> program_state \<Rightarrow> bool \<times> program_state"

definition compareStrings_st ::
  "(string \<Rightarrow> string) \<Rightarrow> string \<Rightarrow> string \<Rightarrow> program_state \<Rightarrow> bool \<times> program_state" where
  "compareStrings_st lower s1 s2 \<sigma> =
     ((if this_caseInsensitive \<sigma> then toLowerCase lower s1 = toLowerCase lower s2
       else s1 = s2), \<sigma>)"

function valueMatches_st ::
  "(string \<Rightarrow> string) \<Rightarrow> function_table \<Rightarrow> jsval \<Rightarrow> stored \<Rightarrow> program_state \<Rightarrow> bool \<times> program_state"
and valueMatches_items_st ::
  "(string \<Rightarrow> string) \<Rightarrow> function_table \<Rightarrow> jsval list \<Rightarrow> stored \<Rightarrow> program_state
     \<Rightarrow> bool \<times> program_state" where
  "valueMatches_st lower call actualValue expectedValue \<sigma> =
     (if actualValue = JNull \<or> actualValue = JUndefined then (False, \<sigma>)
      else
        (case expectedValue of
           StoredFunction k \<Rightarrow> call k actualValue \<sigma>
         | StoredLiteral e \<Rightarrow>
             if typeof actualValue = ''string'' \<and> typeof e = ''string''
               then compareStrings_st lower (str actualValue) (str e) \<sigma>
             else if typeof actualValue = ''number'' \<and> typeof e = ''number''
               then (strict_eq actualValue e, \<sigma>)
             else if typeof actualValue = ''boolean'' \<and> typeof e = ''boolean''
               then (strict_eq actualValue e, \<sigma>)
             else if typeof actualValue = ''object'' \<and> \<not> isArray actualValue
                     \<and> truthy (own_prop actualValue ''path'')
               then (False, \<sigma>)
             else
               (case (if isArray actualValue
                      then valueMatches_items_st lower call (elems actualValue) expectedValue \<sigma>
                      else (False, \<sigma>)) of
                  (found, \<sigma>') \<Rightarrow>
                    if found then (True, \<sigma>')
                    else (stringify actualValue = stringify e, \<sigma>'))))"
| "valueMatches_items_st lower call [] expectedValue \<sigma> = (False, \<sigma>)"
| "valueMatches_items_st lower call (item # items) expectedValue \<sigma> =
     (case valueMatches_st lower call item expectedValue \<sigma> of
        (direct, \<sigma>1) \<Rightarrow>
          if direct then (True, \<sigma>1)
          else
            (case (if typeof item = ''object'' \<and> item \<noteq> JNull
                      \<and> truthy (own_prop item ''label'')
                   then valueMatches_st lower call (own_prop item ''label'') expectedValue \<sigma>1
                   else (False, \<sigma>1)) of
               (byLabel, \<sigma>2) \<Rightarrow>
                 if byLabel then (True, \<sigma>2)
                 else
                   (case (if typeof item = ''object'' \<and> item \<noteq> JNull
                             \<and> truthy (own_prop item ''value'')
                          then valueMatches_st lower call (own_prop item ''value'')
                                 expectedValue \<sigma>2
                          else (False, \<sigma>2)) of
                      (byValue, \<sigma>3) \<Rightarrow>
                        if byValue then (True, \<sigma>3)
                        else valueMatches_items_st lower call items expectedValue \<sigma>3)))"
  by pat_completeness auto
termination
proof -
  have "map_of kvs k = Some x \<Longrightarrow> size x \<le> size_list (size_prod (\<lambda>_. 0) size) kvs"
    for kvs :: "(string \<times> jsval) list" and k x
    by (induction kvs) (auto split: if_splits)
  then have "size (own_prop v k) \<le> size v" for v k
    by (cases v) (auto split: option.splits intro: le_SucI)
  then have member: "2 * size (own_prop v k) < Suc (2 * size v + n)" for v k n
    using le_imp_less_Suc [OF mult_le_mono2 [of "size (own_prop v k)" "size v" 2]]
    by (simp add: trans_less_add1)
  have "size_list size (elems v) \<le> size v" for v
    by (cases v) auto
  then have element: "2 * size_list size (elems v) < Suc (2 * size v)" for v
    using le_imp_less_Suc [OF mult_le_mono2 [of "size_list size (elems v)" "size v" 2]]
    by simp
  show ?thesis
    by (relation "measure (\<lambda>x. case x of Inl (l, c, a, e, \<sigma>) \<Rightarrow> 2 * size a + 1
                                         | Inr (l, c, xs, e, \<sigma>) \<Rightarrow> 2 * size_list size xs)")
       (simp_all add: member element)
qed

declare valueMatches_st.simps [simp del]

definition isMatching_st :: "jsval \<Rightarrow> program_state \<Rightarrow> (exn + bool) \<times> program_state" where
  "isMatching_st c \<sigma> =
     (case get_prop c ''props'' of
        Inl e \<Rightarrow> (Inl e, \<sigma>)
      | Inr props \<Rightarrow>
          if \<not> truthy props then (Inr False, \<sigma>)
          else (case get_prop props ''component'' of
                  Inl e \<Rightarrow> (Inl e, \<sigma>)
                | Inr t \<Rightarrow> (Inr (strict_eq t (JStr (this_componentType \<sigma>))), \<sigma>)))"

fun matchingComponents_st ::
  "jsval list \<Rightarrow> program_state \<Rightarrow> (exn + jsval list) \<times> program_state" where
  "matchingComponents_st [] \<sigma> = (Inr [], \<sigma>)"
| "matchingComponents_st (c # cs) \<sigma> =
     (case isMatching_st c \<sigma> of
        (Inl e, \<sigma>1) \<Rightarrow> (Inl e, \<sigma>1)
      | (Inr b, \<sigma>1) \<Rightarrow>
          (case matchingComponents_st cs \<sigma>1 of
             (Inl e, \<sigma>2) \<Rightarrow> (Inl e, \<sigma>2)
           | (Inr ms, \<sigma>2) \<Rightarrow> (Inr (if b then c # ms else ms), \<sigma>2)))"

text \<open>\<open>this.propertyValue === undefined\<close> and \<open>JSON.stringify(this.propertyValue)\<close> on
  what the field holds. The key of \<open>properties[this.propertyName]\<close> is \<open>template\<close> of
  the field: \<open>undefined\<close> is the key \<open>"undefined"\<close>.\<close>

fun is_undefined_stored :: "stored \<Rightarrow> bool" where
  "is_undefined_stored (StoredLiteral v) = (v = JUndefined)"
| "is_undefined_stored (StoredFunction k) = False"

fun stringify_stored :: "stored \<Rightarrow> string option" where
  "stringify_stored (StoredLiteral v) = stringify v"
| "stringify_stored (StoredFunction k) = None"

definition checkComponent_st ::
  "(string \<Rightarrow> string) \<Rightarrow> function_table \<Rightarrow> jsval list \<Rightarrow> jsval \<Rightarrow> program_state
     \<Rightarrow> (exn + bool) \<times> program_state" where
  "checkComponent_st lower call components component \<sigma> =
     (case get_prop component ''props'' of
        Inl e \<Rightarrow> (Inl e, \<sigma>)
      | Inr properties \<Rightarrow>
          if \<not> truthy properties then (Inr False, \<sigma>)
          else
            (case (if own_prop properties (template (this_propertyName \<sigma>)) \<noteq> JUndefined
                   then (if is_undefined_stored (this_propertyValue \<sigma>) then (True, \<sigma>)
                         else valueMatches_st lower call
                                (own_prop properties (template (this_propertyName \<sigma>)))
                                (this_propertyValue \<sigma>) \<sigma>)
                   else (False, \<sigma>)) of
               (direct, \<sigma>1) \<Rightarrow>
                 if direct then (Inr True, \<sigma>1)
                 else if this_componentType \<sigma>1 = ''Button''
                         \<and> this_propertyName \<sigma>1 = Some ''label''
                         \<and> truthy (own_prop properties ''child'')
                   then (case getComponentById components (own_prop properties ''child'') of
                           Inl e \<Rightarrow> (Inl e, \<sigma>1)
                         | Inr childComponent \<Rightarrow>
                             if truthy childComponent
                                \<and> truthy (own_prop childComponent ''props'')
                                \<and> strict_eq
                                     (own_prop (own_prop childComponent ''props'') ''component'')
                                     (JStr ''Text'')
                             then (case valueMatches_st lower call
                                          (own_prop (own_prop childComponent ''props'') ''text'')
                                          (this_propertyValue \<sigma>1) \<sigma>1 of
                                     (byChild, \<sigma>2) \<Rightarrow> (Inr byChild, \<sigma>2))
                             else (Inr False, \<sigma>1))
                 else (Inr False, \<sigma>1)))"

fun checkComponents_st ::
  "(string \<Rightarrow> string) \<Rightarrow> function_table \<Rightarrow> jsval list \<Rightarrow> jsval list \<Rightarrow> program_state
     \<Rightarrow> (exn + bool) \<times> program_state" where
  "checkComponents_st lower call components [] \<sigma> = (Inr False, \<sigma>)"
| "checkComponents_st lower call components (component # rest) \<sigma> =
     (case checkComponent_st lower call components component \<sigma> of
        (Inl e, \<sigma>1) \<Rightarrow> (Inl e, \<sigma>1)
      | (Inr found, \<sigma>1) \<Rightarrow>
          if found then (Inr True, \<sigma>1)
          else checkComponents_st lower call components rest \<sigma>1)"

text \<open>The error texts, read from the state.\<close>

definition no_component_st :: "program_state \<Rightarrow> string" where
  "no_component_st \<sigma> =
     ''Failed to find component of type '' @ single_quoted (this_componentType \<sigma>) @ ''.''"

definition no_value_st :: "program_state \<Rightarrow> string" where
  "no_value_st \<sigma> =
     ''Failed to find component of type '' @ single_quoted (this_componentType \<sigma>)
       @ '' with property '' @ single_quoted (template (this_propertyName \<sigma>))
       @ '' containing value '' @ template (stringify_stored (this_propertyValue \<sigma>)) @ ''.''"

definition no_property_st :: "program_state \<Rightarrow> string" where
  "no_property_st \<sigma> =
     ''Failed to find component of type '' @ single_quoted (this_componentType \<sigma>)
       @ '' with property '' @ single_quoted (template (this_propertyName \<sigma>)) @ ''.''"

text \<open>\<open>validate\<close> on the state: \<open>schema\<close> is the message of the state.\<close>

definition validate_st ::
  "(string \<Rightarrow> string) \<Rightarrow> function_table \<Rightarrow> program_state
     \<Rightarrow> (exn + ValidationResult) \<times> program_state" where
  "validate_st lower call \<sigma> =
     (case get_prop (message \<sigma>) ''updateComponents'' of
        Inl e \<Rightarrow> (Inl e, \<sigma>)
      | Inr updateComponents \<Rightarrow>
          if \<not> truthy updateComponents then (Inr (failure no_message), \<sigma>)
          else if \<not> isArray (own_prop updateComponents ''components'')
            then (Inr (failure no_array), \<sigma>)
          else
            (let components = elems (own_prop updateComponents ''components'') in
             case matchingComponents_st components \<sigma> of
               (Inl e, \<sigma>1) \<Rightarrow> (Inl e, \<sigma>1)
             | (Inr matching, \<sigma>1) \<Rightarrow>
                 if length matching = 0 then (Inr (failure (no_component_st \<sigma>1)), \<sigma>1)
                 else if this_propertyName \<sigma>1 = None \<or> this_propertyName \<sigma>1 = Some []
                   then (Inr ok, \<sigma>1)
                 else
                   (case checkComponents_st lower call components matching \<sigma>1 of
                      (Inl e, \<sigma>2) \<Rightarrow> (Inl e, \<sigma>2)
                    | (Inr found, \<sigma>2) \<Rightarrow>
                        if found then (Inr ok, \<sigma>2)
                        else if \<not> is_undefined_stored (this_propertyValue \<sigma>2)
                          then (Inr (failure (no_value_st \<sigma>2)), \<sigma>2)
                        else (Inr (failure (no_property_st \<sigma>2)), \<sigma>2))))"

section \<open>Example inputs\<close>

subsection \<open>A lower-casing used in the examples\<close>

text \<open>The examples hold ASCII strings only, so what \<open>toLowerCase\<close> does beyond ASCII
  plays no part in them; this choice leaves such a string as it is.\<close>

definition plain_lower :: "string \<Rightarrow> string" where
  "plain_lower s = s"

subsection \<open>A predicate used in the examples\<close>

text \<open>The predicate \<open>(v) => v === null\<close>.\<close>

definition is_null :: "jsval \<Rightarrow> bool" where
  "is_null v = (v = JNull)"

subsection \<open>Two function tables used in the examples\<close>

text \<open>Every function of this table deletes all the properties of the message, sets
  \<open>caseInsensitive\<close> of the matcher and returns true:
  \<open>(v) => { for (const k of Object.keys(message)) delete message[k];
  matcher.caseInsensitive = true; return true; }\<close>.\<close>

definition meddling :: function_table where
  "meddling k v \<sigma> = (True, \<sigma>\<lparr>message := JObj [], this_caseInsensitive := True\<rparr>)"

text \<open>The functions of this table are \<open>(v) => v === null\<close> and change nothing.\<close>

definition harmless :: function_table where
  "harmless k v \<sigma> = (is_null v, \<sigma>)"

section \<open>Properties\<close>

subsection \<open>Reading properties\<close>

lemma get_prop_Inr_iff:
  "get_prop v k = Inr x \<longleftrightarrow> v \<noteq> JNull \<and> v \<noteq> JUndefined \<and> x = own_prop v k"
  by (cases v) auto

lemma get_prop_Inl_iff:
  "get_prop v k = Inl x \<longleftrightarrow> (v = JNull \<or> v = JUndefined) \<and> x = TypeError k"
  by (cases v) auto

lemma get_prop_truthy: "truthy v \<Longrightarrow> get_prop v k = Inr (own_prop v k)"
  by (cases v) auto

text \<open>Only an object has a property that is not \<open>undefined\<close>.\<close>

lemma get_prop_defined:
  "get_prop v k = Inr x \<Longrightarrow> x \<noteq> JUndefined \<Longrightarrow> truthy v \<and> own_prop v k = x"
  by (cases v) auto

subsection \<open>Selecting the components of the configured type\<close>

lemma isMatching_defined:
  "c \<noteq> JNull \<Longrightarrow> c \<noteq> JUndefined \<Longrightarrow>
     isMatching this c = Inr (truthy (own_prop c ''props'')
        \<and> strict_eq (own_prop (own_prop c ''props'') ''component'') (JStr (componentType this)))"
  by (cases c) (simp_all add: isMatching_def get_prop_truthy)

lemma matchingComponents_filter:
  "matchingComponents this cs = Inr ms \<Longrightarrow> ms = filter (\<lambda>c. isMatching this c = Inr True) cs"
  by (induction cs arbitrary: ms) (auto split: sum.splits if_splits)

lemma matchingComponents_defined:
  "\<forall>c \<in> set cs. c \<noteq> JNull \<and> c \<noteq> JUndefined \<Longrightarrow>
     matchingComponents this cs = Inr (filter (\<lambda>c. isMatching this c = Inr True) cs)"
  by (induction cs) (auto simp: isMatching_defined split: sum.splits)

text \<open>A \<open>null\<close> or \<open>undefined\<close> element anywhere in the array ends the filter with a
  \<open>TypeError\<close>.\<close>

lemma matchingComponents_raises:
  "c \<in> set cs \<Longrightarrow> c = JNull \<or> c = JUndefined \<Longrightarrow>
     matchingComponents this cs = Inl (TypeError ''props'')"
proof (induction cs)
  case Nil
  then show ?case by simp
next
  case (Cons a cs)
  show ?case
  proof (cases "a = JNull \<or> a = JUndefined")
    case True
    then show ?thesis by (auto simp: isMatching_def)
  next
    case False
    with Cons have "matchingComponents this cs = Inl (TypeError ''props'')" by auto
    with False show ?thesis by (simp add: isMatching_defined)
  qed
qed

subsection \<open>The loop over the matching components\<close>

lemma getComponentById_defined:
  "\<forall>c \<in> set components. c \<noteq> JNull \<and> c \<noteq> JUndefined \<Longrightarrow>
     \<exists>r. getComponentById components i = Inr r"
  by (induction components) (auto simp: get_prop_Inl_iff split: sum.splits)


lemma checkComponent_defined:
  assumes "\<forall>c \<in> set components. c \<noteq> JNull \<and> c \<noteq> JUndefined"
    and "component \<noteq> JNull" "component \<noteq> JUndefined"
  shows "\<exists>b. checkComponent lower this components name component = Inr b"
proof -
  obtain r where "getComponentById components
                    (own_prop (own_prop component ''props'') ''child'') = Inr r"
    using getComponentById_defined [OF assms(1)] by blast
  moreover from assms(2,3)
  have "get_prop component ''props'' = Inr (own_prop component ''props'')"
    by (simp add: get_prop_Inr_iff)
  ultimately show ?thesis
    by (auto simp: checkComponent_def)
qed

text \<open>The loop returns at the first component that satisfies the check.\<close>

lemma checkComponents_defined:
  assumes "\<forall>c \<in> set components. c \<noteq> JNull \<and> c \<noteq> JUndefined"
  shows "\<forall>c \<in> set cs. c \<noteq> JNull \<and> c \<noteq> JUndefined \<Longrightarrow>
     checkComponents lower this components name cs
       = Inr (\<exists>c \<in> set cs. checkComponent lower this components name c = Inr True)"
proof (induction cs)
  case Nil
  show ?case by simp
next
  case (Cons c cs)
  from Cons.prems have "c \<noteq> JNull" "c \<noteq> JUndefined" by simp_all
  from checkComponent_defined [OF assms this]
  obtain b where "checkComponent lower this components name c = Inr b" by blast
  with Cons show ?case by (cases b) auto
qed

subsection \<open>When \<open>validate\<close> returns and when it raises\<close>

lemma messages_nonempty:
  "no_message \<noteq> []" "no_array \<noteq> []" "no_component this \<noteq> []"
  "no_value this name \<noteq> []" "no_property this name \<noteq> []"
  by (simp_all add: no_message_def no_array_def no_component_def no_value_def
        no_property_def single_quoted_def)

lemma validate_defined:
  assumes message: "schema \<noteq> JNull" "schema \<noteq> JUndefined"
    and records: "\<forall>c \<in> set (elems (own_prop (own_prop schema ''updateComponents'') ''components'')).
                    c \<noteq> JNull \<and> c \<noteq> JUndefined"
  shows "\<exists>r. validate lower this schema = Inr r
           \<and> (success r \<and> error r = None
               \<or> \<not> success r \<and> (\<exists>msg. error r = Some msg \<and> msg \<noteq> []))"
proof -
  let ?components = "elems (own_prop (own_prop schema ''updateComponents'') ''components'')"
  let ?matching = "filter (\<lambda>c. isMatching this c = Inr True) ?components"
  from message
  have read: "get_prop schema ''updateComponents'' = Inr (own_prop schema ''updateComponents'')"
    by (simp add: get_prop_Inr_iff)
  have sel: "matchingComponents this ?components = Inr ?matching"
    by (rule matchingComponents_defined [OF records])
  from records have "\<forall>c \<in> set ?matching. c \<noteq> JNull \<and> c \<noteq> JUndefined" by simp
  from checkComponents_defined [OF records this]
  have loop: "\<exists>found. checkComponents lower this ?components name ?matching = Inr found" for name
    by blast
  show ?thesis
  proof (cases "propertyName this")
    case None
    with read sel show ?thesis
      by (auto simp: validate_def Let_def ok_def failure_def messages_nonempty)
  next
    case (Some name)
    from loop [of name] obtain found
      where "checkComponents lower this ?components name ?matching = Inr found" by blast
    with Some read sel show ?thesis
      by (auto simp: validate_def Let_def ok_def failure_def messages_nonempty)
  qed
qed

text \<open>The exact condition under which \<open>validate\<close> raises: the message itself is \<open>null\<close>
  or \<open>undefined\<close>, or its component array holds such an element.\<close>

lemma validate_raises_iff:
  "(\<exists>e. validate lower this schema = Inl e) \<longleftrightarrow>
     schema = JNull \<or> schema = JUndefined
     \<or> (\<exists>c \<in> set (elems (own_prop (own_prop schema ''updateComponents'') ''components'')).
           c = JNull \<or> c = JUndefined)"
  (is "?raises \<longleftrightarrow> ?bad")
proof
  assume ?raises
  show ?bad
  proof (rule ccontr)
    assume "\<not> ?bad"
    then have "\<exists>r. validate lower this schema = Inr r"
      using validate_defined [of schema lower this] by blast
    with \<open>?raises\<close> show False by auto
  qed
next
  assume ?bad
  then consider "schema = JNull \<or> schema = JUndefined"
    | c where "schema \<noteq> JNull" "schema \<noteq> JUndefined"
        "c \<in> set (elems (own_prop (own_prop schema ''updateComponents'') ''components''))"
        "c = JNull \<or> c = JUndefined"
    by blast
  then show ?raises
  proof cases
    case 1
    then show ?thesis by (auto simp: validate_def)
  next
    case 2
    let ?uc = "own_prop schema ''updateComponents''"
    from 2(3) have arr: "isArray (own_prop ?uc ''components'')"
      by (cases "own_prop ?uc ''components''") auto
    then have "truthy ?uc" by (cases ?uc) auto
    moreover from 2(1,2) have "get_prop schema ''updateComponents'' = Inr ?uc"
      by (simp add: get_prop_Inr_iff)
    ultimately show ?thesis
      using arr matchingComponents_raises [OF 2(3,4), of this]
      by (simp add: validate_def)
  qed
qed

subsection \<open>What a call of \<open>validate\<close> does to the state\<close>

text \<open>If the configured predicate leaves every state as it is, so does each function of
  the state-passing rendering.\<close>

lemma valueMatches_st_frame:
  "(\<And>k v \<sigma>'. e = StoredFunction k \<Longrightarrow> snd (call k v \<sigma>') = \<sigma>') \<Longrightarrow>
     snd (valueMatches_st lower call a e \<sigma>) = \<sigma>"
  "(\<And>k v \<sigma>'. e = StoredFunction k \<Longrightarrow> snd (call k v \<sigma>') = \<sigma>') \<Longrightarrow>
     snd (valueMatches_items_st lower call xs e \<sigma>) = \<sigma>"
proof (induction lower call a e \<sigma> and lower call xs e \<sigma>
       rule: valueMatches_st_valueMatches_items_st.induct)
  case (1 lower call actualValue expectedValue \<sigma>)
  show ?case
    apply (subst valueMatches_st.simps)
    using 1 by (auto simp: compareStrings_st_def split: stored.splits prod.splits)
next
  case (2 lower call expectedValue \<sigma>)
  show ?case by simp
next
  case (3 lower call item items expectedValue \<sigma>)
  show ?case
    using 3 by (auto split: prod.splits if_splits)
qed

lemma isMatching_st_frame: "snd (isMatching_st c \<sigma>) = \<sigma>"
  by (simp add: isMatching_st_def split: sum.splits)

lemma matchingComponents_st_frame: "snd (matchingComponents_st cs \<sigma>) = \<sigma>"
proof (induction cs)
  case Nil
  show ?case by simp
next
  case (Cons c cs)
  obtain r where "isMatching_st c \<sigma> = (r, \<sigma>)"
    using isMatching_st_frame [of c \<sigma>] by (cases "isMatching_st c \<sigma>") simp
  moreover obtain rs where "matchingComponents_st cs \<sigma> = (rs, \<sigma>)"
    using Cons by (cases "matchingComponents_st cs \<sigma>") simp
  ultimately show ?case by (simp split: sum.splits)
qed

lemma checkComponent_st_frame:
  assumes pure: "\<And>k v \<sigma>'. this_propertyValue \<sigma> = StoredFunction k \<Longrightarrow> snd (call k v \<sigma>') = \<sigma>'"
  shows "snd (checkComponent_st lower call components component \<sigma>) = \<sigma>"
proof -
  define matches where
    "matches a = fst (valueMatches_st lower call a (this_propertyValue \<sigma>) \<sigma>)" for a
  have "snd (valueMatches_st lower call a (this_propertyValue \<sigma>) \<sigma>) = \<sigma>" for a
    by (rule valueMatches_st_frame(1)) (rule pure)
  then have vm: "valueMatches_st lower call a (this_propertyValue \<sigma>) \<sigma> = (matches a, \<sigma>)" for a
    unfolding matches_def by (simp only: prod_eq_iff fst_conv snd_conv simp_thms)
  show ?thesis
    unfolding checkComponent_st_def
    by (simp add: vm split: sum.splits)
qed

lemma checkComponents_st_frame:
  assumes "\<And>k v \<sigma>'. this_propertyValue \<sigma> = StoredFunction k \<Longrightarrow> snd (call k v \<sigma>') = \<sigma>'"
  shows "snd (checkComponents_st lower call components cs \<sigma>) = \<sigma>"
proof (induction cs)
  case Nil
  show ?case by simp
next
  case (Cons c cs)
  define r where "r = fst (checkComponent_st lower call components c \<sigma>)"
  have "snd (checkComponent_st lower call components c \<sigma>) = \<sigma>"
    by (rule checkComponent_st_frame) (rule assms)
  then have "checkComponent_st lower call components c \<sigma> = (r, \<sigma>)"
    unfolding r_def by (simp only: prod_eq_iff fst_conv snd_conv simp_thms)
  with Cons show ?case by (simp split: sum.splits)
qed

lemma validate_st_frame:
  assumes pure: "\<And>k v \<sigma>'. this_propertyValue \<sigma> = StoredFunction k \<Longrightarrow> snd (call k v \<sigma>') = \<sigma>'"
  shows "snd (validate_st lower call \<sigma>) = \<sigma>"
proof -
  define sel where "sel cs = fst (matchingComponents_st cs \<sigma>)" for cs
  define loop where "loop components cs = fst (checkComponents_st lower call components cs \<sigma>)"
    for components cs
  have s: "matchingComponents_st cs \<sigma> = (sel cs, \<sigma>)" for cs
    unfolding sel_def using matchingComponents_st_frame [of cs \<sigma>]
    by (simp only: prod_eq_iff fst_conv snd_conv simp_thms)
  have "snd (checkComponents_st lower call components cs \<sigma>) = \<sigma>" for components cs
    by (rule checkComponents_st_frame) (rule pure)
  then have l: "checkComponents_st lower call components cs \<sigma> = (loop components cs, \<sigma>)"
    for components cs
    unfolding loop_def by (simp only: prod_eq_iff fst_conv snd_conv simp_thms)
  show ?thesis
    unfolding validate_st_def
    by (simp add: s l Let_def split: sum.splits)
qed

subsection \<open>The claims\<close>

text \<open>
  C1, as the code has it. With no property name configured, a message whose
  \<open>updateComponents.components\<close> array holds a component whose \<open>props.component\<close> is
  the configured type, and holds no \<open>null\<close> or \<open>undefined\<close> element, is accepted:
  \<open>validate\<close> returns \<open>{ success: true }\<close>.
\<close>

theorem validate_type_only:
  assumes name: "propertyName this = None"
    and msg: "get_prop schema ''updateComponents'' = Inr updateComponents"
    and arr: "get_prop updateComponents ''components'' = Inr (JArr components)"
    and records: "\<forall>c \<in> set components. c \<noteq> JNull \<and> c \<noteq> JUndefined"
    and c: "c \<in> set components"
    and props: "get_prop c ''props'' = Inr props"
    and type: "get_prop props ''component'' = Inr (JStr (componentType this))"
  shows "validate lower this schema = Inr \<lparr>success = True, error = None\<rparr>"
proof -
  from arr have uc: "truthy updateComponents" "own_prop updateComponents ''components'' = JArr components"
    using get_prop_defined [OF arr] by simp_all
  from type have p: "truthy props" "own_prop props ''component'' = JStr (componentType this)"
    using get_prop_defined [OF type] by simp_all
  from props p c records have "isMatching this c = Inr True"
    by (auto simp: isMatching_defined get_prop_Inr_iff)
  with c have "filter (\<lambda>c. isMatching this c = Inr True) components \<noteq> []"
    by (auto simp: filter_empty_conv)
  with msg uc name records show ?thesis
    by (simp add: validate_def matchingComponents_defined ok_def)
qed

theorem validate_type_only_witness:
  "validate plain_lower (new_UpdateComponentsSchemaMatcher ''Text'' None (Literal JUndefined) None)
     (JObj [(''updateComponents'',
        JObj [(''components'',
          JArr [JObj [(''id'', JStr ''title''),
                      (''props'', JObj [(''component'', JStr ''Text'')])]])])])
   = Inr \<lparr>success = True, error = None\<rparr>"
  by (rule validate_type_only
        [where updateComponents = "JObj [(''components'',
                 JArr [JObj [(''id'', JStr ''title''),
                             (''props'', JObj [(''component'', JStr ''Text'')])]])]"
           and components = "[JObj [(''id'', JStr ''title''),
                                    (''props'', JObj [(''component'', JStr ''Text'')])]]"
           and c = "JObj [(''id'', JStr ''title''),
                          (''props'', JObj [(''component'', JStr ''Text'')])]"
           and props = "JObj [(''component'', JStr ''Text'')]"])
     (simp_all add: new_UpdateComponentsSchemaMatcher_def)

text \<open>The claim as written fails on an array that holds a component of the configured
  type and a \<open>null\<close>: the filter callback reads \<open>c.props\<close> of every element.\<close>

theorem validate_type_only_counterexample:
  "validate plain_lower (new_UpdateComponentsSchemaMatcher ''Button'' None (Literal JUndefined) None)
     (JObj [(''updateComponents'',
        JObj [(''components'',
          JArr [JObj [(''id'', JStr ''send''),
                      (''props'', JObj [(''component'', JStr ''Button'')])],
                JNull])])])
   = Inl (TypeError ''props'')"
  by (simp add: validate_def isMatching_def new_UpdateComponentsSchemaMatcher_def)




text \<open>
  C3, as the code has it. With a predicate as the expected value, \<open>valueMatches\<close> holds
  exactly when the actual value is neither \<open>null\<close> nor \<open>undefined\<close> and the predicate
  returns true on it. On \<open>null\<close> and \<open>undefined\<close> the first statement of \<open>valueMatches\<close>
  returns \<open>false\<close> before the predicate is reached; \<open>validate\<close> passes a \<open>null\<close> property
  on to \<open>valueMatches\<close>, since it only tests the property against \<open>undefined\<close>.
\<close>

theorem valueMatches_predicate:
  "valueMatches lower this actualValue (Predicate f)
     = (actualValue \<noteq> JNull \<and> actualValue \<noteq> JUndefined \<and> f actualValue)"
  by (simp add: valueMatches.simps)

theorem valueMatches_predicate_witness:
  "valueMatches plain_lower (new_UpdateComponentsSchemaMatcher ''Text'' (Some ''text'') (Predicate is_null) None)
     (JStr ''Hello'') (Predicate is_null) = is_null (JStr ''Hello'')"
  using valueMatches_predicate
    [of plain_lower
        "new_UpdateComponentsSchemaMatcher ''Text'' (Some ''text'') (Predicate is_null) None"
        "JStr ''Hello''" is_null]
  by simp

text \<open>The claim as written fails on a \<open>null\<close> property: the predicate \<open>v === null\<close>
  returns true on it, the match does not hold, and \<open>validate\<close> reports a failure.\<close>

theorem valueMatches_predicate_counterexample:
  "is_null JNull
   \<and> \<not> valueMatches plain_lower
        (new_UpdateComponentsSchemaMatcher ''Text'' (Some ''text'') (Predicate is_null) None)
        JNull (Predicate is_null)
   \<and> validate plain_lower
        (new_UpdateComponentsSchemaMatcher ''Text'' (Some ''text'') (Predicate is_null) None)
        (JObj [(''updateComponents'',
           JObj [(''components'',
             JArr [JObj [(''id'', JStr ''title''),
                         (''props'', JObj [(''component'', JStr ''Text''),
                                           (''text'', JNull)])]])])])
      = Inr \<lparr>success = False,
              error = Some (''Failed to find component of type 'Text' with property ''
                            @ single_quoted ''text'' @ '' containing value undefined.'')\<rparr>"
  by (simp add: is_null_def valueMatches.simps validate_def isMatching_def checkComponent_def
        new_UpdateComponentsSchemaMatcher_def failure_def no_value_def single_quoted_def)




text \<open>
  C5. For a message without an \<open>updateComponents\<close> field, \<open>validate\<close> returns
  \<open>success: false\<close> and the error text mentions \<open>updateComponents\<close>. The field is missing
  when reading it gives \<open>undefined\<close>; the same result holds for every falsy value of
  the field, which is the test the code makes.
\<close>

theorem validate_without_updateComponents:
  assumes "get_prop schema ''updateComponents'' = Inr updateComponents"
    and "\<not> truthy updateComponents"
  shows "validate lower this schema = Inr \<lparr>success = False, error = Some no_message\<rparr>
         \<and> sublist ''updateComponents'' no_message"
proof
  from assms show "validate lower this schema = Inr \<lparr>success = False, error = Some no_message\<rparr>"
    by (simp add: validate_def failure_def)
  show "sublist ''updateComponents'' no_message"
    unfolding no_message_def by code_simp
qed

theorem validate_without_updateComponents_witness:
  "validate plain_lower (new_UpdateComponentsSchemaMatcher ''Text'' None (Literal JUndefined) None)
     (JObj [(''createSurface'', JObj [(''surfaceId'', JStr ''main'')])])
   = Inr \<lparr>success = False,
           error = Some ''Expected a 'updateComponents' message but found none.''\<rparr>"
  using validate_without_updateComponents
    [of "JObj [(''createSurface'', JObj [(''surfaceId'', JStr ''main'')])]" JUndefined
        plain_lower
        "new_UpdateComponentsSchemaMatcher ''Text'' None (Literal JUndefined) None"]
  by (simp add: no_message_def)

text \<open>
  C6. For a message whose \<open>updateComponents\<close> field is there (the code's test: it is
  truthy) and whose \<open>updateComponents.components\<close> is not an array, \<open>validate\<close> returns
  \<open>success: false\<close> and the error text mentions \<open>components\<close>.
\<close>

theorem validate_components_not_array:
  assumes "get_prop schema ''updateComponents'' = Inr updateComponents"
    and "truthy updateComponents"
    and "\<not> isArray (own_prop updateComponents ''components'')"
  shows "validate lower this schema = Inr \<lparr>success = False, error = Some no_array\<rparr>
         \<and> sublist ''components'' no_array"
proof
  from assms show "validate lower this schema = Inr \<lparr>success = False, error = Some no_array\<rparr>"
    by (simp add: validate_def failure_def)
  show "sublist ''components'' no_array"
    unfolding no_array_def single_quoted_def by code_simp
qed

theorem validate_components_not_array_witness:
  "validate plain_lower (new_UpdateComponentsSchemaMatcher ''Text'' None (Literal JUndefined) None)
     (JObj [(''updateComponents'', JObj [(''components'', JStr ''none'')])])
   = Inr \<lparr>success = False, error = Some no_array\<rparr>"
  using validate_components_not_array
    [of "JObj [(''updateComponents'', JObj [(''components'', JStr ''none'')])]"
        "JObj [(''components'', JStr ''none'')]"
        plain_lower
        "new_UpdateComponentsSchemaMatcher ''Text'' None (Literal JUndefined) None"]
  by simp

text \<open>
  C7. On two strings \<open>valueMatches\<close> compares the results of \<open>toLowerCase\<close> when the
  matcher's \<open>caseInsensitive\<close> is true and the strings themselves otherwise, whatever
  \<open>toLowerCase\<close> does beyond ASCII; \<open>Hello\<close> matches the expected \<open>hello\<close> exactly when
  the flag is true; and the flag of a constructed matcher is true exactly when the
  constructor was given \<open>true\<close>.
\<close>

theorem valueMatches_strings:
  "valueMatches lower this (JStr actual) (Literal (JStr expected))
     = (if caseInsensitive this then toLowerCase lower actual = toLowerCase lower expected
        else actual = expected)
   \<and> valueMatches lower this (JStr ''Hello'') (Literal (JStr ''hello'')) = caseInsensitive this
   \<and> caseInsensitive (new_UpdateComponentsSchemaMatcher ct pn pv ci) = (ci = Some True)"
proof -
  have "map lower_char ''Hello'' = map lower_char ''hello''"
    by code_simp
  moreover have "list_all is_ascii ''Hello''" "list_all is_ascii ''hello''"
    by code_simp+
  ultimately have lower: "toLowerCase lower ''Hello'' = toLowerCase lower ''hello''"
    by (simp only: toLowerCase_def if_True)
  have gen: "valueMatches lower this (JStr a) (Literal (JStr e))
     = (if caseInsensitive this then toLowerCase lower a = toLowerCase lower e else a = e)" for a e
    by (simp add: valueMatches.simps compareStrings_def)
  have "caseInsensitive (new_UpdateComponentsSchemaMatcher ct pn pv ci) = (ci = Some True)"
    by (cases ci) (simp_all add: new_UpdateComponentsSchemaMatcher_def)
  with gen lower show ?thesis by simp
qed

theorem valueMatches_strings_witness:
  "valueMatches plain_lower (new_UpdateComponentsSchemaMatcher ''Text'' (Some ''text'') (Literal (JStr ''hello'')) (Some True))
      (JStr ''Hello'') (Literal (JStr ''hello''))
   \<and> \<not> valueMatches plain_lower (new_UpdateComponentsSchemaMatcher ''Text'' (Some ''text'') (Literal (JStr ''hello'')) None)
      (JStr ''Hello'') (Literal (JStr ''hello''))"
  using valueMatches_strings [where ci = "Some True", THEN conjunct2]
    valueMatches_strings [where ci = None, THEN conjunct2]
  by simp

text \<open>
  C8, as the code has it. Against a literal expected value, an actual value that is a
  non-array object with a truthy \<open>path\<close> property never matches; one whose \<open>path\<close> is
  missing or falsy matches exactly when its serialisation by \<open>JSON.stringify\<close> is that
  of the expected value.
\<close>

theorem valueMatches_path_binding:
  "valueMatches lower this (JObj members) (Literal expected)
     = (\<not> truthy (own_prop (JObj members) ''path'')
        \<and> stringify (JObj members) = stringify expected)"
  by (cases expected) (simp_all add: valueMatches.simps)

theorem valueMatches_path_binding_witness:
  "\<not> valueMatches plain_lower
       (new_UpdateComponentsSchemaMatcher ''Text'' (Some ''text'') (Literal (JStr ''Ada'')) None)
       (JObj [(''path'', JStr ''/user/name'')]) (Literal (JStr ''Ada''))
   \<and> \<not> valueMatches plain_lower
       (new_UpdateComponentsSchemaMatcher ''Text'' (Some ''text'')
          (Literal (JObj [(''path'', JStr ''/user/name'')])) None)
       (JObj [(''path'', JStr ''/user/name'')]) (Literal (JObj [(''path'', JStr ''/user/name'')]))
   \<and> valueMatches plain_lower
       (new_UpdateComponentsSchemaMatcher ''Text'' (Some ''text'')
          (Literal (JObj [(''label'', JStr ''Ada'')])) None)
       (JObj [(''label'', JStr ''Ada'')]) (Literal (JObj [(''label'', JStr ''Ada'')]))"
  by (simp add: valueMatches_path_binding)

text \<open>The claim as written fails on an object whose \<open>path\<close> is the empty string: the
  test \<open>actualValue.path\<close> is falsy, the value falls through to the comparison of the
  serialisations, and it matches the literal \<open>{"path": ""}\<close>.\<close>

theorem valueMatches_path_binding_counterexample:
  "valueMatches plain_lower
     (new_UpdateComponentsSchemaMatcher ''Text'' (Some ''text'')
        (Literal (JObj [(''path'', JStr [])])) None)
     (JObj [(''path'', JStr [])]) (Literal (JObj [(''path'', JStr [])]))
   \<and> validate plain_lower
        (new_UpdateComponentsSchemaMatcher ''Text'' (Some ''text'')
           (Literal (JObj [(''path'', JStr [])])) None)
        (JObj [(''updateComponents'',
           JObj [(''components'',
             JArr [JObj [(''id'', JStr ''title''),
                         (''props'', JObj [(''component'', JStr ''Text''),
                                           (''text'', JObj [(''path'', JStr [])])])]])])])
      = Inr \<lparr>success = True, error = None\<rparr>"
  by (simp add: valueMatches.simps validate_def isMatching_def checkComponent_def
        new_UpdateComponentsSchemaMatcher_def ok_def)

text \<open>
  C9, as the code has it. A call of \<open>validate\<close> on a matcher whose expected value is a
  literal, or a predicate that leaves the message and the matcher as they are, returns
  the state it was started in: the message and the four fields \<open>componentType\<close>,
  \<open>propertyName\<close>, \<open>propertyValue\<close> and \<open>caseInsensitive\<close> of the matcher are what they
  were, whether the call returns a result or raises.
\<close>

theorem validate_leaves_state:
  assumes "\<And>k v \<sigma>'. this_propertyValue \<sigma> = StoredFunction k \<Longrightarrow> snd (call k v \<sigma>') = \<sigma>'"
  shows "snd (validate_st lower call \<sigma>) = \<sigma>
   \<and> message (snd (validate_st lower call \<sigma>)) = message \<sigma>
   \<and> this_componentType (snd (validate_st lower call \<sigma>)) = this_componentType \<sigma>
   \<and> this_propertyName (snd (validate_st lower call \<sigma>)) = this_propertyName \<sigma>
   \<and> this_propertyValue (snd (validate_st lower call \<sigma>)) = this_propertyValue \<sigma>
   \<and> this_caseInsensitive (snd (validate_st lower call \<sigma>)) = this_caseInsensitive \<sigma>"
  using validate_st_frame [OF assms] by simp

theorem validate_leaves_state_witness:
  "snd (validate_st plain_lower harmless
     \<lparr>this_componentType = ''Text'', this_propertyName = Some ''text'',
      this_propertyValue = StoredFunction 0, this_caseInsensitive = False,
      message = JObj [(''updateComponents'',
         JObj [(''components'',
           JArr [JObj [(''id'', JStr ''title''),
                       (''props'', JObj [(''component'', JStr ''Text''),
                                         (''text'', JStr ''Hello'')])]])])]\<rparr>)
   = \<lparr>this_componentType = ''Text'', this_propertyName = Some ''text'',
      this_propertyValue = StoredFunction 0, this_caseInsensitive = False,
      message = JObj [(''updateComponents'',
         JObj [(''components'',
           JArr [JObj [(''id'', JStr ''title''),
                       (''props'', JObj [(''component'', JStr ''Text''),
                                         (''text'', JStr ''Hello'')])]])])]\<rparr>"
  by (rule validate_leaves_state [THEN conjunct1]) (simp add: harmless_def)

text \<open>The claim as written fails for a predicate with an effect of its own: it is called
  with the state \<open>validate\<close> runs in, and what it changes stays changed.\<close>

theorem validate_leaves_state_counterexample:
  "validate_st plain_lower meddling
     \<lparr>this_componentType = ''Text'', this_propertyName = Some ''text'',
      this_propertyValue = StoredFunction 0, this_caseInsensitive = False,
      message = JObj [(''updateComponents'',
         JObj [(''components'',
           JArr [JObj [(''id'', JStr ''title''),
                       (''props'', JObj [(''component'', JStr ''Text''),
                                         (''text'', JStr ''Hello'')])]])])]\<rparr>
   = (Inr \<lparr>success = True, error = None\<rparr>,
      \<lparr>this_componentType = ''Text'', this_propertyName = Some ''text'',
       this_propertyValue = StoredFunction 0, this_caseInsensitive = True,
       message = JObj []\<rparr>)"
  by (simp add: validate_st_def isMatching_st_def checkComponent_st_def valueMatches_st.simps
        meddling_def ok_def)

text \<open>
  C10. The selection compares \<open>props.component\<close> with the configured type by \<open>===\<close>:
  for a component whose type is any other string, in particular one that differs only
  in letter case, the filter callback returns false, so the component is not among the
  selected ones; and the selection is the same whatever the \<open>caseInsensitive\<close> flag is.
\<close>

theorem matchingComponents_case_sensitive:
  assumes sel: "matchingComponents this components = Inr matching"
    and props: "get_prop c ''props'' = Inr props"
    and type: "get_prop props ''component'' = Inr (JStr t)"
    and diff: "t \<noteq> componentType this"
  shows "isMatching this c = Inr False
         \<and> c \<notin> set matching
         \<and> matchingComponents (this\<lparr>caseInsensitive := flag\<rparr>) components
             = matchingComponents this components"
proof (intro conjI)
  from props type have "isMatching this c = Inr (strict_eq (JStr t) (JStr (componentType this)))"
    using get_prop_defined [OF type] by (simp add: isMatching_def)
  with diff show no: "isMatching this c = Inr False" by simp
  with matchingComponents_filter [OF sel] show "c \<notin> set matching" by simp
  have "isMatching (this\<lparr>caseInsensitive := flag\<rparr>) = isMatching this"
    by (rule ext) (simp add: isMatching_def split: sum.splits)
  then show "matchingComponents (this\<lparr>caseInsensitive := flag\<rparr>) components
             = matchingComponents this components"
    by (induction components) (simp_all split: sum.splits)
qed

theorem matchingComponents_case_sensitive_witness:
  "matchingComponents
      (new_UpdateComponentsSchemaMatcher ''Button'' None (Literal JUndefined) (Some True))
      [JObj [(''id'', JStr ''ok''), (''props'', JObj [(''component'', JStr ''button'')])],
       JObj [(''id'', JStr ''go''), (''props'', JObj [(''component'', JStr ''Button'')])]]
     = Inr [JObj [(''id'', JStr ''go''), (''props'', JObj [(''component'', JStr ''Button'')])]]
   \<and> toLowerCase plain_lower ''button'' = toLowerCase plain_lower ''Button''
   \<and> JObj [(''id'', JStr ''ok''), (''props'', JObj [(''component'', JStr ''button'')])]
       \<notin> set [JObj [(''id'', JStr ''go''), (''props'', JObj [(''component'', JStr ''Button'')])]]"
proof -
  have sel: "matchingComponents
      (new_UpdateComponentsSchemaMatcher ''Button'' None (Literal JUndefined) (Some True))
      [JObj [(''id'', JStr ''ok''), (''props'', JObj [(''component'', JStr ''button'')])],
       JObj [(''id'', JStr ''go''), (''props'', JObj [(''component'', JStr ''Button'')])]]
     = Inr [JObj [(''id'', JStr ''go''), (''props'', JObj [(''component'', JStr ''Button'')])]]"
    by (simp add: isMatching_def new_UpdateComponentsSchemaMatcher_def)
  have low: "toLowerCase plain_lower ''button'' = toLowerCase plain_lower ''Button''" by code_simp
  from matchingComponents_case_sensitive
    [OF sel, of "JObj [(''id'', JStr ''ok''), (''props'', JObj [(''component'', JStr ''button'')])]"
       "JObj [(''component'', JStr ''button'')]" "''button''" True]
  have "JObj [(''id'', JStr ''ok''), (''props'', JObj [(''component'', JStr ''button'')])]
       \<notin> set [JObj [(''id'', JStr ''go''), (''props'', JObj [(''component'', JStr ''Button'')])]]"
    by (simp add: new_UpdateComponentsSchemaMatcher_def)
  with sel low show ?thesis by blast
qed

end
